theory Spec2Isabelle
  imports Complex_Main "HOL-Library.Word"
begin

section \<open>Tensors, layers and the two networks\<close>

text \<open>
  The notebook computes in 32-bit floating point on tensors of the deep-learning framework.
  The model computes with real numbers: rounding, overflow and NaN are outside it.
  A tensor of shape \<open>(n, k)\<close> is a list of \<open>n\<close> rows of \<open>k\<close> numbers; an image batch of
  shape \<open>(n, c, h, w)\<close> is a list of \<open>n\<close> images, each \<open>c\<close> channels of \<open>h\<close> rows of \<open>w\<close>
  pixels. A failing framework call is a value of type \<open>error\<close>.
\<close>

datatype error = RuntimeError | ValueError

type_synonym batch = "real list list"

type_synonym image = "real list list list"

subsection \<open>Parameters\<close>

text \<open>
  The parameters of an \<open>nn.Sequential\<close> are addressed as in its \<open>state_dict\<close>: by the
  position \<open>k\<close> of the child module, the name of the tensor (\<open>weight\<close> or \<open>bias\<close>) and the
  index into it. \<open>\<theta> k Weight r c\<close> is entry \<open>(r, c)\<close> of the weight matrix of a linear layer;
  one-dimensional tensors use column \<open>0\<close>. The framework allocates every tensor with the
  shape its layer declares, so a layer reads exactly the entries inside that shape.
\<close>

datatype tname = Weight | Bias

type_synonym state_dict = "nat \<Rightarrow> tname \<Rightarrow> nat \<Rightarrow> nat \<Rightarrow> real"

subsection \<open>Layers\<close>

text \<open>
  \<open>nn.Linear(in_features, out_features)\<close>, \<open>nn.BatchNorm1d(num_features, eps)\<close>,
  \<open>nn.LeakyReLU(negative_slope)\<close>, \<open>nn.Sigmoid()\<close> and \<open>nn.Tanh()\<close>. The second
  positional argument of \<open>nn.BatchNorm1d\<close> is \<open>eps\<close>.
\<close>

datatype layer =
    Linear nat nat
  | BatchNorm1d nat real
  | LeakyReLU real
  | Sigmoid
  | Tanh

definition linear :: "state_dict \<Rightarrow> nat \<Rightarrow> nat \<Rightarrow> nat \<Rightarrow> real list \<Rightarrow> real list" where
  "linear \<theta> k n_in n_out x =
     map (\<lambda>r. (\<Sum>c<n_in. x ! c * \<theta> k Weight r c) + \<theta> k Bias r 0) [0..<n_out]"

definition leaky_relu :: "real \<Rightarrow> real \<Rightarrow> real" where
  "leaky_relu slope x = (if 0 < x then x else slope * x)"

definition sigmoid :: "real \<Rightarrow> real" where
  "sigmoid x = 1 / (1 + exp (- x))"

text \<open>
  The framework evaluates \<open>tanh\<close> and the logistic function in 32-bit floating point, where
  they reach the ends of their ranges: the results lie in the closed intervals from -1 to 1
  and from 0 to 1. The two functions as the framework computes them are therefore a
  parameter of the model, a record \<open>kernels\<close>; \<open>real_kernels\<close> are the mathematical
  functions, and \<open>saturating_kernels\<close> reach the ends of the ranges as the floating-point
  functions do.
\<close>

record kernels =
  k_tanh :: "real \<Rightarrow> real"
  k_sigmoid :: "real \<Rightarrow> real"

definition real_kernels :: kernels where
  "real_kernels = \<lparr>k_tanh = tanh, k_sigmoid = sigmoid\<rparr>"



text \<open>
  Batch normalisation of a module in training mode (the notebook never calls \<open>eval()\<close>):
  every feature is normalised with the mean and the biased variance of the batch.
\<close>

definition batch_mean :: "batch \<Rightarrow> nat \<Rightarrow> real" where
  "batch_mean X j = (\<Sum>x\<leftarrow>X. x ! j) / real (length X)"

definition batch_var :: "batch \<Rightarrow> nat \<Rightarrow> real" where
  "batch_var X j = (\<Sum>x\<leftarrow>X. (x ! j - batch_mean X j)\<^sup>2) / real (length X)"

definition batch_norm :: "state_dict \<Rightarrow> nat \<Rightarrow> nat \<Rightarrow> real \<Rightarrow> batch \<Rightarrow> batch" where
  "batch_norm \<theta> k nf eps X =
     map (\<lambda>x. map (\<lambda>j. (x ! j - batch_mean X j) / sqrt (batch_var X j + eps) * \<theta> k Weight j 0
                          + \<theta> k Bias j 0) [0..<nf]) X"

text \<open>
  One layer applied to a batch. Batch normalisation in training mode first rejects a batch
  of exactly one row (\<open>Expected more than 1 value per channel when training\<close>); a linear
  layer and a batch normalisation reject an input whose rows do not have the declared number
  of features.
\<close>

fun apply_layer :: "kernels \<Rightarrow> state_dict \<Rightarrow> nat \<Rightarrow> layer \<Rightarrow> batch \<Rightarrow> error + batch" where
  "apply_layer K \<theta> k (Linear n_in n_out) X =
     (if list_all (\<lambda>x. length x = n_in) X then Inr (map (linear \<theta> k n_in n_out) X)
      else Inl RuntimeError)"
| "apply_layer K \<theta> k (BatchNorm1d nf eps) X =
     (if length X = 1 then Inl ValueError
      else if \<not> list_all (\<lambda>x. length x = nf) X then Inl RuntimeError
      else Inr (batch_norm \<theta> k nf eps X))"
| "apply_layer K \<theta> k (LeakyReLU slope) X = Inr (map (map (leaky_relu slope)) X)"
| "apply_layer K \<theta> k Sigmoid X = Inr (map (map (k_sigmoid K)) X)"
| "apply_layer K \<theta> k Tanh X = Inr (map (map (k_tanh K)) X)"

text \<open>\<open>nn.Sequential\<close>: the children in order, the child at position \<open>k\<close> first.\<close>

fun sequential :: "kernels \<Rightarrow> state_dict \<Rightarrow> nat \<Rightarrow> layer list \<Rightarrow> batch \<Rightarrow> error + batch" where
  "sequential K \<theta> k [] X = Inr X"
| "sequential K \<theta> k (l # ls) X =
     (case apply_layer K \<theta> k l X of Inl e \<Rightarrow> Inl e | Inr Y \<Rightarrow> sequential K \<theta> (Suc k) ls Y)"

subsection \<open>Reshaping\<close>

text \<open>
  \<open>t.view(n, c, h, w)\<close> on a tensor of shape \<open>(n, k)\<close> keeps the row-major order of the
  numbers and fails unless \<open>k = c * h * w\<close>; \<open>t.view(n, -1)\<close> flattens each image and
  fails on an empty batch, where the size that \<open>-1\<close> stands for is ambiguous.
\<close>

definition unflatten :: "nat \<times> nat \<times> nat \<Rightarrow> real list \<Rightarrow> image" where
  "unflatten s x = (case s of (c, h, w) \<Rightarrow>
     map (\<lambda>ch. map (\<lambda>r. take w (drop ((ch * h + r) * w) x)) [0..<h]) [0..<c])"

definition flatten :: "image \<Rightarrow> real list" where
  "flatten img = concat (concat img)"

definition view_images :: "nat \<times> nat \<times> nat \<Rightarrow> batch \<Rightarrow> error + image list" where
  "view_images s X = (case s of (c, h, w) \<Rightarrow>
     if list_all (\<lambda>x. length x = c * h * w) X then Inr (map (unflatten s) X) else Inl RuntimeError)"

definition has_shape :: "nat \<times> nat \<times> nat \<Rightarrow> image \<Rightarrow> bool" where
  "has_shape s img = (case s of (c, h, w) \<Rightarrow>
     length img = c \<and> list_all (\<lambda>ch. length ch = h \<and> list_all (\<lambda>r. length r = w) ch) img)"

subsection \<open>The data set\<close>

text \<open>
  The images are MNIST digits: one channel of 28 by 28 pixels, each a byte.
  \<open>transforms.ToTensor()\<close> scales a byte to \<open>[0, 1]\<close> and
  \<open>transforms.Normalize([0.5], [0.5])\<close> subtracts the mean and divides by the deviation.
\<close>

definition example_shape :: "nat \<times> nat \<times> nat" where
  "example_shape = (1, 28, 28)"

definition z_dim :: nat where
  "z_dim = 100"

definition mnist_dim :: nat where
  "mnist_dim = 28 * 28"




subsection \<open>Generator and Discriminator\<close>

definition block :: "nat \<Rightarrow> nat \<Rightarrow> bool \<Rightarrow> layer list" where
  "block in_feat out_feat normalise =
     [Linear in_feat out_feat]
     @ (if normalise then [BatchNorm1d out_feat 0.8] else [])
     @ [LeakyReLU 0.2]"

definition Generator_model :: "nat \<Rightarrow> nat \<Rightarrow> layer list" where
  "Generator_model g_input_dim g_output_dim =
     block g_input_dim 128 False
     @ block 128 256 True
     @ block 256 512 True
     @ block 512 1024 True
     @ [Linear 1024 g_output_dim, Tanh]"

definition Generator_forward :: "kernels \<Rightarrow> state_dict \<Rightarrow> batch \<Rightarrow> error + image list" where
  "Generator_forward K \<theta> z =
     (case sequential K \<theta> 0 (Generator_model z_dim mnist_dim) z of
        Inl e \<Rightarrow> Inl e
      | Inr img \<Rightarrow> view_images example_shape img)"

definition Discriminator_model :: "nat \<Rightarrow> layer list" where
  "Discriminator_model d_input_dim =
     [Linear d_input_dim 512, LeakyReLU 0.2, Linear 512 256, LeakyReLU 0.2, Linear 256 1, Sigmoid]"

definition Discriminator_forward :: "kernels \<Rightarrow> state_dict \<Rightarrow> image list \<Rightarrow> error + batch" where
  "Discriminator_forward K \<theta> img =
     (if img = [] then Inl RuntimeError
      else (let img_flat = map flatten img
            in sequential K \<theta> 0 (Discriminator_model mnist_dim) img_flat))"

definition shape2 :: "nat \<Rightarrow> nat \<Rightarrow> batch \<Rightarrow> bool" where
  \<comment> \<open>a tensor of shape \<open>(n, k)\<close>\<close>
  "shape2 n k X = (length X = n \<and> list_all (\<lambda>x. length x = k) X)"


definition zero_params :: state_dict where
  "zero_params = (\<lambda>k t r c. 0)"

subsection \<open>Concrete inputs\<close>

text \<open>A latent batch of \<open>n\<close> zero vectors and a black image of the shape of the data.\<close>

definition zero_latent :: "nat \<Rightarrow> batch" where
  "zero_latent n = replicate n (replicate z_dim 0)"

definition zero_image :: image where
  "zero_image = [replicate 28 (replicate 28 0)]"

section \<open>The gradient penalty\<close>

subsection \<open>Automatic differentiation through the Discriminator\<close>

text \<open>
  \<open>autograd.grad(outputs, inputs, grad_outputs)\<close> walks the graph that the forward pass
  recorded, from the outputs back to the inputs, and multiplies \<open>grad_outputs\<close> by the
  transposed Jacobian of every operation on the way. The backward rules of the three
  operations of the Discriminator follow; \<open>a\<close> is the input the operation saw in the forward
  pass and \<open>g\<close> the gradient with respect to its output.
\<close>

definition linear_backward :: "state_dict \<Rightarrow> nat \<Rightarrow> nat \<Rightarrow> nat \<Rightarrow> real list \<Rightarrow> real list" where
  "linear_backward \<theta> k n_in n_out g = map (\<lambda>c. \<Sum>r<n_out. g ! r * \<theta> k Weight r c) [0..<n_in]"

definition leaky_relu_backward :: "real \<Rightarrow> real list \<Rightarrow> real list \<Rightarrow> real list" where
  "leaky_relu_backward slope a g = map2 (\<lambda>a g. if 0 < a then g else slope * g) a g"

definition sigmoid_backward :: "kernels \<Rightarrow> real list \<Rightarrow> real list \<Rightarrow> real list" where
  "sigmoid_backward K a g = map2 (\<lambda>a g. g * (1 - k_sigmoid K a) * k_sigmoid K a) a g"

text \<open>
  The reverse pass through the six children of \<open>Discriminator.model\<close> for one flattened
  image: the gradient with respect to the image, given the gradient \<open>g\<close> with respect to
  the score.
\<close>

definition Discriminator_input_grad ::
    "kernels \<Rightarrow> state_dict \<Rightarrow> real list \<Rightarrow> real list \<Rightarrow> real list" where
  "Discriminator_input_grad K \<theta> x g =
     (let a1 = linear \<theta> 0 mnist_dim 512 x;
          h1 = map (leaky_relu 0.2) a1;
          a2 = linear \<theta> 2 512 256 h1;
          h2 = map (leaky_relu 0.2) a2;
          a3 = linear \<theta> 4 256 1 h2;
          g5 = sigmoid_backward K a3 g;
          g4 = linear_backward \<theta> 4 256 1 g5;
          g3 = leaky_relu_backward 0.2 a2 g4;
          g2 = linear_backward \<theta> 2 512 256 g3;
          g1 = leaky_relu_backward 0.2 a1 g2
      in linear_backward \<theta> 0 mnist_dim 512 g1)"

definition dims :: "image \<Rightarrow> nat \<times> nat \<times> nat" where
  "dims img =
     (length img,
      (case img of [] \<Rightarrow> 0 | ch # _ \<Rightarrow> length ch),
      (case img of [] \<Rightarrow> 0 | ch # _ \<Rightarrow> (case ch of [] \<Rightarrow> 0 | r # _ \<Rightarrow> length r)))"

text \<open>
  The gradient with respect to an image batch has the shape of the batch: the backward rule
  of \<open>view\<close> reshapes the gradient of the flattened image.
\<close>

definition Discriminator_backward ::
    "kernels \<Rightarrow> state_dict \<Rightarrow> image list \<Rightarrow> batch \<Rightarrow> image list" where
  "Discriminator_backward K \<theta> img grad_outputs =
     map2 (\<lambda>x g. unflatten (dims x) (Discriminator_input_grad K \<theta> (flatten x) g)) img grad_outputs"

text \<open>
  A critic, as \<open>compute_gradient_penalty\<close> uses it: applied to an image batch it returns its
  output of shape \<open>(n, 1)\<close> together with the recorded graph, here the function that takes
  \<open>grad_outputs\<close> to the gradient with respect to the image batch.
\<close>

type_synonym critic = "image list \<Rightarrow> error + batch \<times> (batch \<Rightarrow> image list)"

definition Discriminator :: "kernels \<Rightarrow> state_dict \<Rightarrow> critic" where
  "Discriminator K \<theta> img =
     (case Discriminator_forward K \<theta> img of
        Inl e \<Rightarrow> Inl e
      | Inr validity \<Rightarrow> Inr (validity, Discriminator_backward K \<theta> img))"

subsection \<open>compute_gradient_penalty\<close>

definition scale_image :: "real \<Rightarrow> image \<Rightarrow> image" where
  "scale_image a img = map (map (map (\<lambda>v. a * v))) img"

definition add_image :: "image \<Rightarrow> image \<Rightarrow> image" where
  "add_image x y = map2 (map2 (map2 (+))) x y"

definition mean :: "real list \<Rightarrow> real" where
  "mean xs = sum_list xs / real (length xs)"

definition norm2 :: "real list \<Rightarrow> real" where
  "norm2 g = sqrt (\<Sum>v\<leftarrow>g. v\<^sup>2)"

text \<open>
  \<open>random\<close> is the source of \<open>np.random.random\<close>: its \<open>i\<close>-th number is the entry of
  \<open>alpha\<close>, a tensor of shape \<open>(n, 1, 1, 1)\<close>, for sample \<open>i\<close>, and broadcasting multiplies
  every pixel of sample \<open>i\<close> by it. The two batches are taken to have one shape; broadcasting
  between batches of different shapes is outside the model. \<open>gradients.view(n, -1)\<close> fails
  on an empty batch, so the mean is taken of at least one number.
\<close>

definition compute_gradient_penalty ::
    "critic \<Rightarrow> image list \<Rightarrow> image list \<Rightarrow> (nat \<Rightarrow> real) \<Rightarrow> error + real" where
  "compute_gradient_penalty D real_samples fake_samples random =
     (let alpha = map random [0..<length real_samples];
          interpolates = map2 add_image (map2 scale_image alpha real_samples)
                                        (map2 scale_image (map (\<lambda>a. 1 - a) alpha) fake_samples)
      in case D interpolates of
           Inl e \<Rightarrow> Inl e
         | Inr (d_interpolates, grad_fn) \<Rightarrow>
             (let fake = replicate (length real_samples) [1];
                  gradients = grad_fn fake
              in if gradients = [] then Inl RuntimeError
                 else (let gradients = map flatten gradients;
                           gradient_penalty = mean (map (\<lambda>g. (norm2 g - 1)\<^sup>2) gradients)
                       in Inr gradient_penalty)))"

section \<open>The training loop\<close>

subsection \<open>Settings and optimizers\<close>

definition n_critic :: nat where
  "n_critic = 5"

definition epochs :: nat where
  "epochs = 200"

definition lambda_gp :: real where
  "lambda_gp = 10"

definition lr :: real where
  "lr = 0.0002"

definition b1 :: real where
  "b1 = 0.5"

definition b2 :: real where
  "b2 = 0.999"

text \<open>
  \<open>torch.optim.Adam(params, lr, betas)\<close> with the defaults of the other arguments
  (\<open>eps = 1e-8\<close>, no weight decay, no AMSGrad). The optimizer keeps, for the parameters it
  was given, the number of steps taken and the two running averages.
\<close>

record optimizer =
  opt_lr :: real
  opt_betas :: "real \<times> real"
  opt_eps :: real
  step_count :: nat
  exp_avg :: state_dict
  exp_avg_sq :: state_dict

definition Adam :: "real \<Rightarrow> real \<times> real \<Rightarrow> optimizer" where
  "Adam l betas =
     \<lparr>opt_lr = l, opt_betas = betas, opt_eps = 1 / 10 ^ 8,
      step_count = 0, exp_avg = zero_params, exp_avg_sq = zero_params\<rparr>"

text \<open>One \<open>step()\<close>: the new optimizer and the new value of the parameters.\<close>

definition adam_step :: "optimizer \<Rightarrow> state_dict \<Rightarrow> state_dict \<Rightarrow> optimizer \<times> state_dict" where
  "adam_step opt p grad =
     (let (beta1, beta2) = opt_betas opt;
          t = Suc (step_count opt);
          m = (\<lambda>k n r c. beta1 * exp_avg opt k n r c + (1 - beta1) * grad k n r c);
          v = (\<lambda>k n r c. beta2 * exp_avg_sq opt k n r c + (1 - beta2) * (grad k n r c)\<^sup>2);
          bias_correction1 = 1 - beta1 ^ t;
          bias_correction2 = 1 - beta2 ^ t;
          step_size = opt_lr opt / bias_correction1
      in (opt\<lparr>step_count := t, exp_avg := m, exp_avg_sq := v\<rparr>,
          (\<lambda>k n r c. p k n r c
             - step_size * (m k n r c / (sqrt (v k n r c) / sqrt bias_correction2 + opt_eps opt)))))"

subsection \<open>State\<close>

text \<open>
  What the loop reads and writes: the parameters of the two networks, the \<open>.grad\<close> fields
  of those parameters, the two optimizers and the two lists of recorded losses. The field
  \<open>updates\<close> is a history the notebook does not keep: the optimizer steps taken so far, the
  oldest first.
\<close>

datatype event = CriticUpdate | GeneratorUpdate

record train_state =
  G :: state_dict
  D :: state_dict
  G_grad :: state_dict
  D_grad :: state_dict
  optimizer_G :: optimizer
  optimizer_D :: optimizer
  list_loss_D :: "real list"
  list_loss_G :: "real list"
  updates :: "event list"

definition initial_state :: "state_dict \<Rightarrow> state_dict \<Rightarrow> train_state" where
  \<comment> \<open>the two networks as the framework initialised them, and the cell that builds the optimizers\<close>
  "initial_state g d =
     \<lparr>G = g, D = d, G_grad = zero_params, D_grad = zero_params,
      optimizer_G = Adam lr (b1, b2), optimizer_D = Adam lr (b1, b2),
      list_loss_D = [], list_loss_G = [], updates = []\<rparr>"

definition add_grad :: "state_dict \<Rightarrow> state_dict \<Rightarrow> state_dict" where
  \<comment> \<open>\<open>backward()\<close> accumulates into \<open>.grad\<close>\<close>
  "add_grad a b = (\<lambda>k n r c. a k n r c + b k n r c)"

text \<open>
  The random numbers one iteration draws: \<open>np.random.normal(0, 1, (n, z_dim))\<close> for the
  latent batch and \<open>np.random.random((n, 1, 1, 1))\<close> inside \<open>compute_gradient_penalty\<close>.
\<close>

record draws =
  normal :: "nat \<Rightarrow> nat \<Rightarrow> real"
  random :: "nat \<Rightarrow> real"

text \<open>
  The framework's reverse-mode differentiation of a loss with respect to parameters is a
  parameter \<open>ad\<close> of the model: \<open>ad f p\<close> is the gradient at \<open>p\<close> of the loss computed as \<open>f\<close>
  of the parameters.
\<close>

type_synonym autodiff = "(state_dict \<Rightarrow> error + real) \<Rightarrow> state_dict \<Rightarrow> state_dict"

subsection \<open>The two losses\<close>

definition critic_loss ::
    "kernels \<Rightarrow> state_dict \<Rightarrow> image list \<Rightarrow> image list \<Rightarrow> (nat \<Rightarrow> real) \<Rightarrow> error + real" where
  "critic_loss K d real_imgs fake_imgs rnd =
     (case compute_gradient_penalty (Discriminator K d) real_imgs fake_imgs rnd of
        Inl e \<Rightarrow> Inl e
      | Inr gradient_penalty \<Rightarrow>
     (case Discriminator_forward K d real_imgs of
        Inl e \<Rightarrow> Inl e
      | Inr d_real \<Rightarrow>
     (case Discriminator_forward K d fake_imgs of
        Inl e \<Rightarrow> Inl e
      | Inr d_fake \<Rightarrow>
          Inr (- mean (concat d_real) + mean (concat d_fake) + lambda_gp * gradient_penalty))))"

definition generator_loss :: "kernels \<Rightarrow> state_dict \<Rightarrow> state_dict \<Rightarrow> batch \<Rightarrow> error + real" where
  "generator_loss K g d z =
     (case Generator_forward K g z of
        Inl e \<Rightarrow> Inl e
      | Inr gen_imgs \<Rightarrow>
     (case Discriminator_forward K d gen_imgs of
        Inl e \<Rightarrow> Inl e
      | Inr d_gen \<Rightarrow> Inr (- mean (concat d_gen))))"

subsection \<open>One iteration\<close>

text \<open>
  The part of the loop body under \<open>Train Discriminator\<close>. \<open>fake_imgs\<close> is detached: it
  enters the loss as a constant, so \<open>d_loss.backward()\<close> reaches the parameters of the
  Discriminator only.
\<close>

definition train_discriminator ::
    "kernels \<Rightarrow> autodiff \<Rightarrow> draws \<Rightarrow> image list \<Rightarrow> train_state
      \<Rightarrow> error + train_state \<times> batch \<times> real" where
  "train_discriminator K ad u imgs s =
     (let real_imgs = imgs;
          s = s\<lparr>D_grad := zero_params\<rparr>;
          z = map (\<lambda>i. map (normal u i) [0..<z_dim]) [0..<length imgs]
      in case Generator_forward K (G s) z of
           Inl e \<Rightarrow> Inl e
         | Inr fake_imgs \<Rightarrow>
        (case critic_loss K (D s) real_imgs fake_imgs (random u) of
           Inl e \<Rightarrow> Inl e
         | Inr d_loss \<Rightarrow>
             (let s = s\<lparr>D_grad := add_grad (D_grad s)
                         (ad (\<lambda>d. critic_loss K d real_imgs fake_imgs (random u)) (D s))\<rparr>;
                  (opt, d) = adam_step (optimizer_D s) (D s) (D_grad s);
                  s = s\<lparr>optimizer_D := opt, D := d, updates := updates s @ [CriticUpdate]\<rparr>
              in Inr (s, z, d_loss))))"

text \<open>
  The part under \<open>Train Generator\<close>. \<open>g_loss\<close> depends on the parameters of both networks,
  so \<open>g_loss.backward()\<close> accumulates into the \<open>.grad\<close> fields of both;
  \<open>optimizer_G.step()\<close> then updates the parameters it was built with.
\<close>

definition train_generator ::
    "kernels \<Rightarrow> autodiff \<Rightarrow> batch \<Rightarrow> real \<Rightarrow> train_state \<Rightarrow> error + train_state \<times> real" where
  "train_generator K ad z d_loss s =
     (let s = s\<lparr>G_grad := zero_params\<rparr>
      in case generator_loss K (G s) (D s) z of
           Inl e \<Rightarrow> Inl e
         | Inr g_loss \<Rightarrow>
             (let s = s\<lparr>G_grad := add_grad (G_grad s) (ad (\<lambda>g. generator_loss K g (D s) z) (G s)),
                       D_grad := add_grad (D_grad s) (ad (\<lambda>d. generator_loss K (G s) d z) (D s))\<rparr>;
                  (opt, g) = adam_step (optimizer_G s) (G s) (G_grad s);
                  s = s\<lparr>optimizer_G := opt, G := g, updates := updates s @ [GeneratorUpdate]\<rparr>;
                  s = s\<lparr>list_loss_D := list_loss_D s @ [d_loss],
                       list_loss_G := list_loss_G s @ [g_loss]\<rparr>
              in Inr (s, g_loss)))"

definition train_batch ::
    "kernels \<Rightarrow> autodiff \<Rightarrow> draws \<Rightarrow> nat \<Rightarrow> image list \<Rightarrow> train_state \<Rightarrow> error + train_state" where
  "train_batch K ad u i imgs s =
     (case train_discriminator K ad u imgs s of
        Inl e \<Rightarrow> Inl e
      | Inr (s, z, d_loss) \<Rightarrow>
          if i mod n_critic = 0 then
            (case train_generator K ad z d_loss s of
               Inl e \<Rightarrow> Inl e
             | Inr (s, g_loss) \<Rightarrow> Inr s)
          else Inr s)"

subsection \<open>The two loops\<close>

text \<open>
  \<open>for i, (imgs, _) in enumerate(train_loader)\<close>, from index \<open>i\<close> on, and
  \<open>for epoch in range(epochs)\<close>, from epoch \<open>e\<close> on. \<open>loader e\<close> is the list of minibatches
  the data loader yields in epoch \<open>e\<close>, and \<open>u e i\<close> the random numbers of iteration \<open>i\<close>
  of that epoch. Printing and the saving of images and models are not modelled.
\<close>

fun train_batches ::
    "kernels \<Rightarrow> autodiff \<Rightarrow> (nat \<Rightarrow> draws) \<Rightarrow> nat \<Rightarrow> image list list \<Rightarrow> train_state
      \<Rightarrow> error + train_state" where
  "train_batches K ad u i [] s = Inr s"
| "train_batches K ad u i (imgs # rest) s =
     (case train_batch K ad (u i) i imgs s of
        Inl e \<Rightarrow> Inl e
      | Inr s' \<Rightarrow> train_batches K ad u (Suc i) rest s')"

fun train_epochs ::
    "kernels \<Rightarrow> autodiff \<Rightarrow> (nat \<Rightarrow> nat \<Rightarrow> draws) \<Rightarrow> (nat \<Rightarrow> image list list) \<Rightarrow> nat \<Rightarrow> nat
      \<Rightarrow> train_state \<Rightarrow> error + train_state" where
  "train_epochs K ad u loader e 0 s = Inr s"
| "train_epochs K ad u loader e (Suc n) s =
     (case train_batches K ad (u e) 0 (loader e) s of
        Inl err \<Rightarrow> Inl err
      | Inr s' \<Rightarrow> train_epochs K ad u loader (Suc e) n s')"

definition training ::
    "kernels \<Rightarrow> autodiff \<Rightarrow> (nat \<Rightarrow> nat \<Rightarrow> draws) \<Rightarrow> (nat \<Rightarrow> image list list) \<Rightarrow> train_state
      \<Rightarrow> error + train_state" where
  "training K ad u loader s = train_epochs K ad u loader 0 epochs s"

subsection \<open>The schedule\<close>

text \<open>
  The last cell has the control skeleton
  \<^verbatim>\<open>
  for epoch in range(epochs):
      for i, (imgs, _) in enumerate(train_loader):
          ... optimizer_D.step()
          if i % n_critic == 0:
              ... optimizer_G.step()
  \<close>
  and these are the optimizer steps it takes, in order, when every epoch has \<open>nb\<close>
  minibatches.
\<close>

definition batch_events :: "nat \<Rightarrow> event list" where
  "batch_events i = CriticUpdate # (if i mod n_critic = 0 then [GeneratorUpdate] else [])"

definition epoch_events :: "nat \<Rightarrow> event list" where
  "epoch_events nb = concat (map batch_events [0..<nb])"

definition training_events :: "nat \<Rightarrow> nat \<Rightarrow> event list" where
  "training_events ne nb = concat (replicate ne (epoch_events nb))"

text \<open>
  \<open>schedule_ok c es\<close> checks the schedule of the WGAN-GP algorithm on a list of updates:
  \<open>c\<close> counts the critic updates since the previous generator update, and every generator
  update must find exactly \<open>n_critic\<close> of them.
\<close>

fun schedule_ok :: "nat \<Rightarrow> event list \<Rightarrow> bool" where
  "schedule_ok c [] = True"
| "schedule_ok c (CriticUpdate # es) = schedule_ok (Suc c) es"
| "schedule_ok c (GeneratorUpdate # es) = (c = n_critic \<and> schedule_ok 0 es)"

section \<open>Properties of the two networks\<close>

subsection \<open>Sequential and shapes\<close>


lemma length_linear: "length (linear \<theta> k n_in n_out x) = n_out"
  by (simp add: linear_def)

lemma width_batch_norm: "x \<in> set (batch_norm \<theta> k nf eps X) \<Longrightarrow> length x = nf"
  by (auto simp: batch_norm_def)

lemma length_batch_norm: "length (batch_norm \<theta> k nf eps X) = length X"
  by (simp add: batch_norm_def)

lemmas width_simps = list_all_iff o_def length_linear width_batch_norm length_batch_norm

lemma Generator_model_result:
  assumes "list_all (\<lambda>x. length x = a) X" "length X \<noteq> 1"
  shows "\<exists>Y. sequential K \<theta> 0 (Generator_model a b) X = Inr Y \<and> length Y = length X
           \<and> list_all (\<lambda>x. length x = b) Y"
  using assms by (simp add: Generator_model_def block_def width_simps)

lemma Generator_model_single:
  assumes "list_all (\<lambda>x. length x = a) X" "length X = 1"
  shows "sequential K \<theta> 0 (Generator_model a b) X = Inl ValueError"
  using assms by (simp add: Generator_model_def block_def width_simps)

lemma has_shape_unflatten:
  assumes "length x = c * h * w"
  shows "has_shape (c, h, w) (unflatten (c, h, w) x)"
proof -
  have "length (take w (drop ((ch * h + r) * w) x)) = w" if "ch < c" "r < h" for ch r
  proof -
    have "ch * h + r + 1 \<le> c * h"
    proof -
      have "ch * h + r + 1 \<le> ch * h + h" using that(2) by simp
      also have "\<dots> = (ch + 1) * h" by simp
      also have "\<dots> \<le> c * h" using that(1) by (intro mult_le_mono1) simp
      finally show ?thesis .
    qed
    then have "(ch * h + r + 1) * w \<le> c * h * w" by (rule mult_le_mono1)
    then have "(ch * h + r) * w + w \<le> length x" by (simp add: assms algebra_simps)
    then show ?thesis by simp
  qed
  then show ?thesis
    by (simp add: has_shape_def unflatten_def list_all_iff)
qed

lemma Generator_forward_shape:
  assumes "shape2 n z_dim z" "n \<noteq> 1"
  shows "\<exists>imgs. Generator_forward K \<theta> z = Inr imgs \<and> length imgs = n
           \<and> list_all (has_shape (1, 28, 28)) imgs"
proof -
  from assms have "list_all (\<lambda>x. length x = z_dim) z" "length z \<noteq> 1" "length z = n"
    by (simp_all add: shape2_def)
  from Generator_model_result [OF this(1,2), of K \<theta> mnist_dim] this(3)
  obtain Y where Y: "sequential K \<theta> 0 (Generator_model z_dim mnist_dim) z = Inr Y"
      "length Y = n" "list_all (\<lambda>x. length x = mnist_dim) Y"
    by auto
  from Y(3) have len: "\<forall>x\<in>set Y. length x = 1 * 28 * 28"
    by (simp add: list_all_iff mnist_dim_def)
  then have "\<forall>x\<in>set Y. has_shape (1, 28, 28) (unflatten (1, 28, 28) x)"
    using has_shape_unflatten by blast
  with Y(1,2) len show ?thesis
    by (simp add: Generator_forward_def view_images_def example_shape_def list_all_iff)
qed

lemma Generator_forward_single:
  assumes "shape2 1 z_dim z"
  shows "Generator_forward K \<theta> z = Inl ValueError"
proof -
  from assms have "list_all (\<lambda>x. length x = z_dim) z" "length z = 1"
    by (simp_all add: shape2_def)
  from Generator_model_single [OF this] show ?thesis
    by (simp add: Generator_forward_def)
qed

subsection \<open>The networks at zero parameters\<close>

lemma linear_zero: "linear zero_params k a b x = replicate b 0"
  by (simp add: linear_def zero_params_def map_replicate_const)

lemma map_upt_const: "(\<And>i. i < n \<Longrightarrow> f i = c) \<Longrightarrow> map f [0..<n] = replicate n c"
  by (simp add: list_eq_iff_nth_eq)

lemma apply_Linear_zero:
  "apply_layer K zero_params k (Linear a b) (replicate n (replicate a 0))
     = Inr (replicate n (replicate b 0))"
  by (simp add: list_all_iff linear_zero)

lemma apply_BatchNorm_zero:
  "n \<noteq> 1 \<Longrightarrow> apply_layer K zero_params k (BatchNorm1d b e) (replicate n (replicate b 0))
     = Inr (replicate n (replicate b 0))"
  by (simp add: list_all_iff batch_norm_def zero_params_def map_replicate_const)

lemma apply_LeakyReLU_zero:
  "apply_layer K \<theta> k (LeakyReLU s) (replicate n (replicate b 0)) = Inr (replicate n (replicate b 0))"
  by (simp add: leaky_relu_def)

lemma apply_Tanh_zero:
  "apply_layer real_kernels \<theta> k Tanh (replicate n (replicate b 0)) = Inr (replicate n (replicate b 0))"
  by (simp add: real_kernels_def)

lemma Generator_model_zero:
  assumes "n \<noteq> 1"
  shows "sequential real_kernels zero_params 0 (Generator_model a b) (replicate n (replicate a 0))
     = Inr (replicate n (replicate b 0))"
  using assms
  by (simp add: Generator_model_def block_def apply_Linear_zero apply_BatchNorm_zero
      apply_LeakyReLU_zero apply_Tanh_zero del: apply_layer.simps)

lemma unflatten_zero: "unflatten (Suc 0, 28, 28) (replicate 784 0) = zero_image"
proof -
  have "map (\<lambda>r. take 28 (drop ((0 * 28 + r) * 28) (replicate 784 (0::real)))) [0..<28]
      = replicate 28 (replicate 28 0)"
    by (rule map_upt_const) simp
  then show ?thesis by (simp add: unflatten_def zero_image_def)
qed

lemma Generator_forward_zero:
  assumes "n \<noteq> 1"
  shows "Generator_forward real_kernels zero_params (zero_latent n) = Inr (replicate n zero_image)"
  using Generator_model_zero [OF assms, of z_dim mnist_dim]
  by (simp add: Generator_forward_def zero_latent_def view_images_def example_shape_def mnist_dim_def
      unflatten_zero list_all_iff)

lemma concat_replicate_replicate: "concat (replicate m (replicate k x)) = replicate (m * k) x"
  by (induction m) (simp_all add: replicate_add)

lemma flatten_zero_image: "flatten zero_image = replicate 784 0"
  by (simp add: flatten_def zero_image_def concat_replicate_replicate)

subsection \<open>Ranges\<close>








subsection \<open>Claims about the Generator\<close>

text \<open>
  Claim C7, as amended. The Generator is the sequence of a linear layer 100 to 128 with a
  LeakyReLU and no batch normalisation, three groups of a linear layer, a batch
  normalisation and a LeakyReLU (128 to 256, 256 to 512, 512 to 1024), a linear layer 1024
  to 784 and a Tanh; its forward pass takes every latent batch of shape \<open>(n, 100)\<close>
  with \<open>n \<noteq> 1\<close> to an image batch of shape \<open>(n, 1, 28, 28)\<close>, and raises \<open>ValueError\<close> on
  every latent batch of shape \<open>(1, 100)\<close>.
\<close>

theorem Generator_layers_and_shape:
  "Generator_model z_dim mnist_dim =
     [Linear 100 128, LeakyReLU 0.2,
      Linear 128 256, BatchNorm1d 256 0.8, LeakyReLU 0.2,
      Linear 256 512, BatchNorm1d 512 0.8, LeakyReLU 0.2,
      Linear 512 1024, BatchNorm1d 1024 0.8, LeakyReLU 0.2,
      Linear 1024 784, Tanh]
   \<and> (shape2 n 100 z \<and> n \<noteq> 1 \<longrightarrow>
        (\<exists>imgs. Generator_forward K \<theta> z = Inr imgs \<and> length imgs = n
           \<and> list_all (has_shape (1, 28, 28)) imgs))
   \<and> (shape2 1 100 z \<longrightarrow> Generator_forward K \<theta> z = Inl ValueError)"
proof (intro conjI impI)
  show "Generator_model z_dim mnist_dim =
     [Linear 100 128, LeakyReLU 0.2,
      Linear 128 256, BatchNorm1d 256 0.8, LeakyReLU 0.2,
      Linear 256 512, BatchNorm1d 512 0.8, LeakyReLU 0.2,
      Linear 512 1024, BatchNorm1d 1024 0.8, LeakyReLU 0.2,
      Linear 1024 784, Tanh]"
    by (simp add: Generator_model_def block_def z_dim_def mnist_dim_def)
next
  assume "shape2 n 100 z \<and> n \<noteq> 1"
  then show "\<exists>imgs. Generator_forward K \<theta> z = Inr imgs \<and> length imgs = n
           \<and> list_all (has_shape (1, 28, 28)) imgs"
    using Generator_forward_shape [of n z K \<theta>] by (simp add: z_dim_def)
next
  assume "shape2 1 100 z"
  then show "Generator_forward K \<theta> z = Inl ValueError"
    using Generator_forward_single [of z K \<theta>] by (simp add: z_dim_def)
qed

theorem Generator_layers_and_shape_witness:
  "shape2 2 100 (zero_latent 2) \<and> (2::nat) \<noteq> 1
   \<and> Generator_forward real_kernels zero_params (zero_latent 2) = Inr [zero_image, zero_image]
   \<and> length [zero_image, zero_image] = 2
   \<and> list_all (has_shape (1, 28, 28)) [zero_image, zero_image]
   \<and> shape2 1 100 (zero_latent 1)
   \<and> Generator_forward real_kernels zero_params (zero_latent 1) = Inl ValueError"
proof -
  have h: "shape2 2 100 (zero_latent 2) \<and> (2::nat) \<noteq> 1"
    by (simp add: shape2_def zero_latent_def z_dim_def list_all_iff)
  have h1: "shape2 1 100 (zero_latent 1)"
    by (simp add: shape2_def zero_latent_def z_dim_def list_all_iff)
  have e: "Generator_forward real_kernels zero_params (zero_latent 2) = Inr [zero_image, zero_image]"
    using Generator_forward_zero [of 2] by (simp add: numeral_2_eq_2)
  from Generator_layers_and_shape [of 2 "zero_latent 2" real_kernels zero_params] h e
  have a: "length [zero_image, zero_image] = 2
      \<and> list_all (has_shape (1, 28, 28)) [zero_image, zero_image]"
    by simp
  from Generator_layers_and_shape [of 1 "zero_latent 1" real_kernels zero_params] h1
  have b: "Generator_forward real_kernels zero_params (zero_latent 1) = Inl ValueError"
    by simp
  from h h1 e a b show ?thesis by simp
qed

theorem Generator_single_sample_counterexample:
  "shape2 1 100 (zero_latent 1)
   \<and> Generator_forward real_kernels zero_params (zero_latent 1) = Inl ValueError"
proof -
  have s: "shape2 1 100 (zero_latent 1)"
    by (simp add: shape2_def zero_latent_def z_dim_def list_all_iff)
  then have "shape2 1 z_dim (zero_latent 1)" by (simp add: z_dim_def)
  from Generator_forward_single [OF this] s show ?thesis by simp
qed




end
